theory Spec2Isabelle
  imports Main "HOL-Library.Multiset" "HOL-Library.Sublist"
begin

section \<open>JavaScript values read by build-from-airtable.mjs\<close>

text \<open>
  The script reads record fields that Airtable delivers as JSON: text, a checkbox, a
  number, or nothing at all. A field the script reads as text or as a flag is a
  \<open>jsval\<close>: \<open>JUndefined\<close> is a property that is absent from the object, \<open>JNull\<close> a JSON
  null. Strings are byte strings (the UTF-8 encoding of the JavaScript string); the four
  characters the escaper looks for are ASCII, so no byte of a longer UTF-8 sequence is
  ever mistaken for one of them. Numbers occur in one place only, the \<open>Order\<close> field, and
  are integers there; number formatting (\<open>String(1.5)\<close>) is floating-point and outside
  this development.
\<close>

datatype jsval = JUndefined | JNull | JBool bool | JStr string

text \<open>\<open>String(value)\<close>.\<close>

fun js_String :: "jsval \<Rightarrow> string" where
  "js_String JUndefined = ''undefined''"
| "js_String JNull = ''null''"
| "js_String (JBool b) = (if b then ''true'' else ''false'')"
| "js_String (JStr s) = s"

text \<open>Truthiness, as used by \<open>||\<close>, \<open>? :\<close> and \<open>filter(Boolean)\<close>.\<close>

fun truthy :: "jsval \<Rightarrow> bool" where
  "truthy JUndefined = False"
| "truthy JNull = False"
| "truthy (JBool b) = b"
| "truthy (JStr s) = (s \<noteq> [])"

text \<open>\<open>a ?? b\<close> and \<open>a || b\<close>.\<close>

fun nullish :: "jsval \<Rightarrow> jsval \<Rightarrow> jsval" where
  "nullish JUndefined d = d"
| "nullish JNull d = d"
| "nullish v d = v"

definition js_or :: "jsval \<Rightarrow> jsval \<Rightarrow> jsval" where
  "js_or a b = (if truthy a then a else b)"

text \<open>\<open>xs.join(sep)\<close> on an array of strings.\<close>

fun join :: "string \<Rightarrow> string list \<Rightarrow> string" where
  "join sep [] = []"
| "join sep [x] = x"
| "join sep (x # y # ys) = x @ sep @ join sep (y # ys)"

definition nl :: string where
  "nl = [CHR 0x0A]"

section \<open>escapeHtml\<close>

text \<open>
  \<open>s.replace(/c/g, rep)\<close> for a one-character pattern \<open>c\<close> and a replacement text without
  \<open>$\<close>: one pass from left to right, every match replaced, the replacement not rescanned.
\<close>

fun replace_all :: "char \<Rightarrow> string \<Rightarrow> string \<Rightarrow> string" where
  "replace_all c rep [] = []"
| "replace_all c rep (x # xs) =
     (if x = c then rep @ replace_all c rep xs else x # replace_all c rep xs)"

text \<open>
  \<open>function escapeHtml(value = "")\<close>: the default applies to \<open>undefined\<close> only (an omitted
  argument is \<open>undefined\<close>); every other value, \<open>null\<close> included, goes to \<open>String\<close> as it is.
\<close>

definition escapeHtml :: "jsval \<Rightarrow> string" where
  \<open>escapeHtml v =
     (let value = (case v of JUndefined \<Rightarrow> JStr '''' | _ \<Rightarrow> v) in
      replace_all (CHR 0x22) ''&quot;''
        (replace_all CHR ''>'' ''&gt;''
          (replace_all CHR ''<'' ''&lt;''
            (replace_all CHR ''&'' ''&amp;'' (js_String value)))))\<close>

section \<open>renderCards\<close>

text \<open>
  A record of either table is an object with a \<open>fields\<close> object (\<open>rec_fields\<close> here:
  \<open>fields\<close> is taken by the record package). The fields the script
  reads of a Sections record: \<open>Order\<close> is a number field, \<open>None\<close> when the record has none
  (absent or null, both falsy); the others are read as text or as a flag.
\<close>

record 'f airtable_record =
  rec_fields :: 'f

record section_fields =
  Order :: "int option"
  Title :: jsval
  Body :: jsval
  Highlight :: jsval
  Bullet_1 :: jsval
  Bullet_2 :: jsval
  Bullet_3 :: jsval

type_synonym section_record = "section_fields airtable_record"

text \<open>\<open>a.fields.Order || 0\<close>: a number is falsy when it is 0.\<close>

definition order_or_0 :: "section_record \<Rightarrow> int" where
  "order_or_0 a = (case Order (rec_fields a) of None \<Rightarrow> 0 | Some n \<Rightarrow> if n \<noteq> 0 then n else 0)"

text \<open>The comparator \<open>(a, b) => (a.fields.Order || 0) - (b.fields.Order || 0)\<close>.\<close>

definition compareOrder :: "section_record \<Rightarrow> section_record \<Rightarrow> int" where
  "compareOrder a b = order_or_0 a - order_or_0 b"

text \<open>
  \<open>Array.prototype.sort(cmp)\<close> sorts the array in place and returns it. The algorithm is
  the engine's; ECMAScript 2019 requires it to be stable, and for a consistent comparator
  the result is ordered by it. The model is the stable insertion sort driven by the
  comparator: an element goes before the first element it does not compare greater than.
  Lemma \<open>js_sort_unique\<close> below shows that this fixes the result: a list with the same
  records that is ascending and keeps equal keys in input order is the one computed here.
\<close>

fun js_insort :: "('a \<Rightarrow> 'a \<Rightarrow> int) \<Rightarrow> 'a \<Rightarrow> 'a list \<Rightarrow> 'a list" where
  "js_insort cmp x [] = [x]"
| "js_insort cmp x (y # ys) =
     (if cmp x y \<le> 0 then x # y # ys else y # js_insort cmp x ys)"

fun js_sort :: "('a \<Rightarrow> 'a \<Rightarrow> int) \<Rightarrow> 'a list \<Rightarrow> 'a list" where
  "js_sort cmp [] = []"
| "js_sort cmp (x # xs) = js_insort cmp x (js_sort cmp xs)"

text \<open>The body of the \<open>map\<close> callback: one card.\<close>

definition highlightClass :: "section_fields \<Rightarrow> string" where
  "highlightClass f = (if truthy (Highlight f) then '' card highlight'' else '''')"

text \<open>The inner callback \<open>(b) => `<li>${escapeHtml(b)}</li>`\<close>.\<close>

definition li :: "jsval \<Rightarrow> string" where
  "li b = ''<li>'' @ escapeHtml b @ ''</li>''"

definition bullets :: "section_fields \<Rightarrow> string" where
  "bullets f = join '''' (map li (filter truthy [Bullet_1 f, Bullet_2 f, Bullet_3 f]))"

definition bulletsHtml :: "section_fields \<Rightarrow> string" where
  "bulletsHtml f = (if bullets f \<noteq> [] then ''<ul>'' @ bullets f @ ''</ul>'' else '''')"

definition renderCard :: "section_record \<Rightarrow> string" where
  \<open>renderCard rec =
     (let f = rec_fields rec;
          title = escapeHtml (nullish (Title f) (JStr ''''));
          body = escapeHtml (nullish (Body f) (JStr ''''))
      in nl @ ''    <section class="card'' @ highlightClass f @ ''">'' @ nl @
         ''      <h2>'' @ title @ ''</h2>'' @ nl @
         ''      <p>'' @ body @ ''</p>'' @ nl @
         ''      '' @ bulletsHtml f @ nl @
         ''    </section>'')\<close>

text \<open>
  \<open>renderCards(sections)\<close> returns the markup and, since \<open>sort\<close> works in place, leaves
  the caller's array reordered: the second component is the array after the call.
\<close>

definition renderCards :: "section_record list \<Rightarrow> string \<times> section_record list" where
  "renderCards sections =
     (let sorted = js_sort compareOrder sections
      in (join nl (map renderCard sorted), sorted))"

section \<open>The network boundary: fetchTable\<close>

text \<open>
  What \<open>await fetch(url, { headers })\<close> resolved to, as far as the script looks at it:
  \<open>res.ok\<close>, \<open>res.status\<close>, \<open>res.statusText\<close>, the body read by \<open>res.text()\<close>, and
  the \<open>records\<close> array of the body parsed by \<open>res.json()\<close>. A rejected \<open>fetch\<close> and a body
  that is not the JSON of a record list are outside the model.
\<close>

record 'f response =
  ok :: bool
  status :: nat
  statusText :: string
  body_text :: string
  records :: "'f airtable_record list"

datatype error = Error string

text \<open>What the process does to the outside world, in the order it does it.\<close>

datatype event =
    ConsoleLog string
  | ConsoleError string
  | ConsoleErrorWith string error
  | Fetch string string
  | Mkdir string
  | WriteFile string string
  | Exit nat

text \<open>A number in a template literal: the decimal digits of a status code.\<close>

fun show_nat :: "nat \<Rightarrow> string" where
  "show_nat n =
     (if n < 10 then [''0123456789'' ! n]
      else show_nat (n div 10) @ [''0123456789'' ! (n mod 10)])"

declare show_nat.simps [simp del]

text \<open>
  \<open>encodeURIComponent\<close> on the UTF-8 bytes of its argument: letters, digits and
  \<open>- _ . ! ~ * ' ( )\<close> stay, every other byte becomes \<open>%XX\<close>.
\<close>

definition uri_unreserved :: "char \<Rightarrow> bool" where
  "uri_unreserved c \<longleftrightarrow>
     c \<in> set (''ABCDEFGHIJKLMNOPQRSTUVWXYZabcdefghijklmnopqrstuvwxyz0123456789-_.!~*()''
              @ [CHR 0x27])"

definition hex_digit :: "nat \<Rightarrow> char" where
  "hex_digit n = ''0123456789ABCDEF'' ! n"

definition encodeURIComponent :: "string \<Rightarrow> string" where
  "encodeURIComponent s =
     concat (map (\<lambda>c. if uri_unreserved c then [c]
                       else [CHR ''%'', hex_digit (of_char c div 16), hex_digit (of_char c mod 16)]) s)"

definition GLOBALS_TABLE :: string where
  "GLOBALS_TABLE = ''Globals''"

definition SECTIONS_TABLE :: string where
  "SECTIONS_TABLE = ''Sections''"

definition table_url :: "string \<Rightarrow> string \<Rightarrow> string \<Rightarrow> string" where
  "table_url base_id tableName params =
     ''https://api.airtable.com/v0/'' @ base_id @ ''/'' @ encodeURIComponent tableName @ params"

definition fetch_failed :: "string \<Rightarrow> 'f response \<Rightarrow> string" where
  "fetch_failed tableName res =
     ''Failed to fetch '' @ tableName @ '': '' @ show_nat (status res) @ '' '' @ statusText res
       @ nl @ body_text res"

text \<open>
  \<open>fetchTable(tableName, params)\<close>, given the response its one \<open>fetch\<close> resolves to: the
  request it makes, and either the error it throws or the records it returns.
\<close>

definition fetchTable ::
  "string \<Rightarrow> string \<Rightarrow> string \<Rightarrow> string \<Rightarrow> 'f response
     \<Rightarrow> event list \<times> (error + 'f airtable_record list)" where
  "fetchTable token base_id tableName params res =
     ([Fetch (table_url base_id tableName params) (''Bearer '' @ token)],
      if \<not> ok res then Inl (Error (fetch_failed tableName res))
      else Inr (records res))"

section \<open>main: assembling and writing the page\<close>

record globals_fields =
  Hero_Title :: jsval
  Hero_Subtitle :: jsval
  Footer_Text :: jsval
  SEO_Title :: jsval
  SEO_Description :: jsval

text \<open>The empty object \<open>{}\<close>: every property absent.\<close>

definition no_fields :: globals_fields where
  "no_fields = \<lparr>Hero_Title = JUndefined, Hero_Subtitle = JUndefined, Footer_Text = JUndefined,
                 SEO_Title = JUndefined, SEO_Description = JUndefined\<rparr>"

text \<open>\<open>globalsRecords[0]?.fields ?? {}\<close>.\<close>

definition globals_of :: "globals_fields airtable_record list \<Rightarrow> globals_fields" where
  "globals_of globalsRecords = (case globalsRecords of [] \<Rightarrow> no_fields | r # _ \<Rightarrow> rec_fields r)"

text \<open>\<open>a || b\<close> on strings: the empty string is falsy.\<close>

definition str_or :: "string \<Rightarrow> string \<Rightarrow> string" where
  "str_or a b = (if a \<noteq> [] then a else b)"

definition heroTitle :: "globals_fields \<Rightarrow> string" where
  "heroTitle globals = escapeHtml (js_or (Hero_Title globals) (JStr ''''))"

definition heroSubtitle :: "globals_fields \<Rightarrow> string" where
  "heroSubtitle globals = escapeHtml (js_or (Hero_Subtitle globals) (JStr ''''))"

definition footerText :: "globals_fields \<Rightarrow> string" where
  "footerText globals = escapeHtml (js_or (Footer_Text globals) (JStr ''''))"

definition seoTitle :: "globals_fields \<Rightarrow> string" where
  "seoTitle globals =
     str_or (str_or (escapeHtml (SEO_Title globals)) (heroTitle globals)) ''Simple Web''"

definition seoDescription :: "globals_fields \<Rightarrow> string" where
  "seoDescription globals = escapeHtml (js_or (SEO_Description globals) (JStr ''''))"

text \<open>The template literal of \<open>main\<close>, split at its \<open><title>\<close> element.\<close>

definition html_before_title :: string where
  \<open>html_before_title =
     ''<!DOCTYPE html>'' @ nl @
     ''<html lang="en">'' @ nl @
     ''<head>'' @ nl @
     ''  <meta charset="UTF-8" />'' @ nl @
     ''  <meta name="viewport" content="width=device-width, initial-scale=1.0" />'' @ nl @
     ''  ''\<close>

definition html_after_title :: "globals_fields \<Rightarrow> string \<Rightarrow> string" where
  \<open>html_after_title globals cardsHtml =
     nl @
     ''  <meta name="description" content="'' @ seoDescription globals @ ''">'' @ nl @
     ''  <link rel="stylesheet" href="styles.css" />'' @ nl @
     ''</head>'' @ nl @
     ''<body>'' @ nl @
     ''  <header class="site-header">'' @ nl @
     ''    <div class="container">'' @ nl @
     ''      <h1>'' @ heroTitle globals @ ''</h1>'' @ nl @
     ''      <p class="subtitle">'' @ heroSubtitle globals @ ''</p>'' @ nl @
     ''    </div>'' @ nl @
     ''  </header>'' @ nl @
     nl @
     ''  <main class="container">'' @ nl @
     ''    '' @ cardsHtml @ nl @
     ''  </main>'' @ nl @
     nl @
     ''  <footer class="site-footer">'' @ nl @
     ''    <div class="container">'' @ nl @
     ''      <p>'' @ footerText globals @ ''</p>'' @ nl @
     ''    </div>'' @ nl @
     ''  </footer>'' @ nl @
     ''</body>'' @ nl @
     ''</html>''\<close>

definition html :: "globals_fields \<Rightarrow> string \<Rightarrow> string" where
  "html globals cardsHtml =
     html_before_title @ ''<title>'' @ seoTitle globals @ ''</title>''
       @ html_after_title globals cardsHtml"

text \<open>The console messages; the leading pictograph is spelt as its UTF-8 bytes.\<close>

definition msg_fetching :: string where
  "msg_fetching = [CHR 0xF0, CHR 0x9F, CHR 0x93, CHR 0xA1] @ '' Fetching content from Airtable...''"

definition msg_generated :: string where
  "msg_generated = [CHR 0xE2, CHR 0x9C, CHR 0x85] @ '' index.html generated from Airtable''"

definition msg_missing_env :: string where
  "msg_missing_env =
     [CHR 0xE2, CHR 0x9D, CHR 0x8C]
       @ '' Missing AIRTABLE_TOKEN or AIRTABLE_BASE_ID environment variables.''"

definition msg_build_failed :: string where
  "msg_build_failed = [CHR 0xE2, CHR 0x9D, CHR 0x8C] @ '' Build failed:''"

text \<open>
  \<open>main()\<close>, given what the two fetches resolve to: the events up to the point where it
  returns or throws, and which of the two it does. A throw of \<open>fetchTable\<close> leaves \<open>main\<close>
  at once. The file system calls are taken to succeed.
\<close>

definition main ::
  "string \<Rightarrow> string \<Rightarrow> globals_fields response \<Rightarrow> section_fields response
     \<Rightarrow> event list \<times> (error + unit)" where
  "main token base_id globals_res sections_res =
     (let log0 = [ConsoleLog msg_fetching];
          (ev1, r1) = fetchTable token base_id GLOBALS_TABLE ''?maxRecords=1'' globals_res
      in case r1 of
           Inl err \<Rightarrow> (log0 @ ev1, Inl err)
         | Inr globalsRecords \<Rightarrow>
             (let (ev2, r2) = fetchTable token base_id SECTIONS_TABLE '''' sections_res
              in case r2 of
                   Inl err \<Rightarrow> (log0 @ ev1 @ ev2, Inl err)
                 | Inr sectionsRecords \<Rightarrow>
                     (let globals = globals_of globalsRecords;
                          cardsHtml = fst (renderCards sectionsRecords)
                      in (log0 @ ev1 @ ev2 @
                            [Mkdir ''public'',
                             WriteFile ''public/index.html'' (html globals cardsHtml),
                             ConsoleLog msg_generated],
                          Inr ()))))"

text \<open>
  The module from top to bottom: the check of the two environment variables (an unset
  variable is \<open>None\<close>, and an empty one is falsy as well), then
  \<open>main().catch(...)\<close>.
\<close>

definition missing_env :: "event list" where
  "missing_env = [ConsoleError msg_missing_env, Exit 1]"

definition program ::
  "string option \<Rightarrow> string option \<Rightarrow> globals_fields response \<Rightarrow> section_fields response
     \<Rightarrow> event list" where
  "program AIRTABLE_TOKEN AIRTABLE_BASE_ID globals_res sections_res =
     (case (AIRTABLE_TOKEN, AIRTABLE_BASE_ID) of
        (Some token, Some base_id) \<Rightarrow>
          if token = [] \<or> base_id = [] then missing_env
          else
            (case main token base_id globals_res sections_res of
               (evs, Inl err) \<Rightarrow> evs @ [ConsoleErrorWith msg_build_failed err, Exit 1]
             | (evs, Inr _) \<Rightarrow> evs)
      | _ \<Rightarrow> missing_env)"

section \<open>Vocabulary of the properties\<close>

text \<open>
  The escaper as the specification words it: each character on its own, the four
  HTML-significant ones replaced by their entity and every other one kept.
\<close>

definition escape_char :: "char \<Rightarrow> string" where
  \<open>escape_char c =
     (if c = CHR ''&'' then ''&amp;''
      else if c = CHR ''<'' then ''&lt;''
      else if c = CHR ''>'' then ''&gt;''
      else if c = CHR 0x22 then ''&quot;''
      else [c])\<close>

definition escape_spec :: "string \<Rightarrow> string" where
  "escape_spec s = concat (map escape_char s)"

definition special :: "char \<Rightarrow> bool" where
  \<open>special c \<longleftrightarrow> c = CHR ''&'' \<or> c = CHR ''<'' \<or> c = CHR ''>'' \<or> c = CHR 0x22\<close>

text \<open>How often a text occurs in a string, overlapping occurrences counted.\<close>

fun occurrences :: "string \<Rightarrow> string \<Rightarrow> nat" where
  "occurrences pat [] = 0"
| "occurrences pat (x # xs) = (if prefix pat (x # xs) then 1 else 0) + occurrences pat xs"

text \<open>The sort key in the specification's words: the Order field, 0 when there is none.\<close>

definition order_key :: "section_record \<Rightarrow> int" where
  "order_key r = (case Order (rec_fields r) of None \<Rightarrow> 0 | Some n \<Rightarrow> n)"

text \<open>The bullets that pass \<open>filter(Boolean)\<close>, in slot order.\<close>

definition truthy_bullets :: "section_fields \<Rightarrow> jsval list" where
  "truthy_bullets f = filter truthy [Bullet_1 f, Bullet_2 f, Bullet_3 f]"

text \<open>
  An optional text value as the JSON delivers it: the property is missing, or it is a
  string. \<open>text_or_empty\<close> is the specification's reading of it, absent as empty.
\<close>

definition text_field :: "string option \<Rightarrow> jsval" where
  "text_field t = (case t of None \<Rightarrow> JUndefined | Some s \<Rightarrow> JStr s)"

definition text_or_empty :: "string option \<Rightarrow> string" where
  "text_or_empty t = (case t of None \<Rightarrow> '''' | Some s \<Rightarrow> s)"

text \<open>
  The document title in the specification's words: the escaped SEO title, else the
  escaped hero title, else the default; the first that is not empty.
\<close>

definition title_spec :: "string option \<Rightarrow> string option \<Rightarrow> string" where
  "title_spec seo hero =
     (if escape_spec (text_or_empty seo) \<noteq> [] then escape_spec (text_or_empty seo)
      else if escape_spec (text_or_empty hero) \<noteq> [] then escape_spec (text_or_empty hero)
      else ''Simple Web'')"

text \<open>Sample data: a Sections record with no field set, and cards told apart by a title.\<close>

definition blank_section :: section_fields where
  "blank_section =
     \<lparr>Order = None, Title = JUndefined, Body = JUndefined, Highlight = JUndefined,
      Bullet_1 = JUndefined, Bullet_2 = JUndefined, Bullet_3 = JUndefined\<rparr>"

definition card_titled :: "string \<Rightarrow> int \<Rightarrow> section_record" where
  "card_titled t n = \<lparr>rec_fields = blank_section\<lparr>Order := Some n, Title := JStr t\<rparr>\<rparr>"


definition ok_with :: "'f airtable_record list \<Rightarrow> 'f response" where
  "ok_with rs = \<lparr>ok = True, status = 200, statusText = ''OK'', body_text = '''', records = rs\<rparr>"

text \<open>Settings as a Globals record with a JSON null for the SEO title delivers them.\<close>

definition null_seo_title :: globals_fields where
  "null_seo_title = no_fields\<lparr>Hero_Title := JStr ''Hi'', SEO_Title := JNull\<rparr>"

section \<open>The escaper, character by character\<close>

lemma replace_all_append:
  "replace_all c rep (xs @ ys) = replace_all c rep xs @ replace_all c rep ys"
  by (induction xs) simp_all

lemma replace_all_concat_map:
  "replace_all c rep (concat (map f s)) = concat (map (\<lambda>x. replace_all c rep (f x)) s)"
  by (induction s) (simp_all add: replace_all_append)

lemma replace_all_as_map:
  "replace_all c rep s = concat (map (\<lambda>x. if x = c then rep else [x]) s)"
  by (induction s) simp_all

text \<open>The three later passes on what the first pass makes of one character.\<close>

lemma later_passes_char:
  \<open>replace_all (CHR 0x22) ''&quot;''
     (replace_all CHR ''>'' ''&gt;''
       (replace_all CHR ''<'' ''&lt;''
         (if x = CHR ''&'' then ''&amp;'' else [x]))) = escape_char x\<close>
  by (simp add: escape_char_def)

lemma escapeHtml_JStr: "escapeHtml (JStr s) = escape_spec s"
  unfolding escapeHtml_def escape_spec_def Let_def
  by (simp add: replace_all_as_map [of "CHR ''&''"] replace_all_concat_map later_passes_char)

lemma escapeHtml_cases:
  "escapeHtml v = escape_spec (case v of JUndefined \<Rightarrow> '''' | _ \<Rightarrow> js_String v)"
  by (cases v) (simp_all add: escapeHtml_JStr [symmetric], simp_all add: escapeHtml_def)

lemma escape_spec_append: "escape_spec (a @ b) = escape_spec a @ escape_spec b"
  by (simp add: escape_spec_def)

lemma escape_spec_eq_Nil: "escape_spec s = [] \<longleftrightarrow> s = []"
  by (cases s) (auto simp: escape_spec_def escape_char_def)

lemma length_escape_char_ge: "1 \<le> length (escape_char c)"
  by (simp add: escape_char_def)

lemma length_escape_char_special: "special c \<Longrightarrow> 1 < length (escape_char c)"
  by (auto simp: escape_char_def special_def)

lemma length_escape_spec_ge: "length s \<le> length (escape_spec s)"
proof (induction s)
  case Nil
  show ?case by (simp add: escape_spec_def)
next
  case (Cons c s)
  have "escape_spec (c # s) = escape_char c @ escape_spec s"
    by (simp add: escape_spec_def)
  with Cons length_escape_char_ge [of c] show ?case by simp
qed

lemma length_escape_spec_gt:
  "\<exists>c \<in> set s. special c \<Longrightarrow> length s < length (escape_spec s)"
proof (induction s)
  case Nil
  then show ?case by simp
next
  case (Cons c s)
  have step: "escape_spec (c # s) = escape_char c @ escape_spec s"
    by (simp add: escape_spec_def)
  show ?case
  proof (cases "special c")
    case True
    with length_escape_char_special [of c] length_escape_spec_ge [of s] step
    show ?thesis by simp
  next
    case False
    with Cons.prems have "\<exists>c \<in> set s. special c" by simp
    with Cons.IH length_escape_char_ge [of c] step show ?thesis by simp
  qed
qed

lemma amp_in_escape_spec:
  "\<exists>c \<in> set s. special c \<Longrightarrow> CHR ''&'' \<in> set (escape_spec s)"
  by (induction s) (auto simp: escape_spec_def escape_char_def special_def)

lemma escape_spec_chars:
  \<open>set (escape_spec s) \<inter> {CHR ''<'', CHR ''>'', CHR 0x22} = {}\<close>
  by (induction s) (auto simp: escape_spec_def escape_char_def)

lemma escapeHtml_no_lt: "CHR ''<'' \<notin> set (escapeHtml v)"
  using escape_spec_chars by (auto simp: escapeHtml_cases)

section \<open>Counting tags in the markup\<close>

lemma occurrences_skip:
  "p \<notin> set a \<Longrightarrow> occurrences (p # ps) (a @ b) = occurrences (p # ps) b"
  by (induction a) auto

text \<open>Escaped text holds no \<open><\<close>, so no tag starts inside it.\<close>

lemma occ_escapeHtml [simp]:
  "occurrences (CHR ''<'' # ps) (escapeHtml v @ b) = occurrences (CHR ''<'' # ps) b"
  by (rule occurrences_skip) (rule escapeHtml_no_lt)

lemma join_empty_sep: "join [] xs = concat xs"
  by (induction "[]::string" xs rule: join.induct) simp_all

lemma concat_li_eq_Nil: "concat (map li bs) = [] \<longleftrightarrow> bs = []"
  by (cases bs) (simp_all add: li_def)

lemma bullets_eq: "bullets f = concat (map li (truthy_bullets f))"
  by (simp add: bullets_def join_empty_sep truthy_bullets_def)

lemma bulletsHtml_cases:
  "bulletsHtml f =
     (if truthy_bullets f = [] then ''''
      else ''<ul>'' @ concat (map li (truthy_bullets f)) @ ''</ul>'')"
  unfolding bulletsHtml_def bullets_eq concat_li_eq_Nil by simp

lemma occ_ul_lis:
  "occurrences ''<ul>'' (concat (map li bs) @ rest) = occurrences ''<ul>'' rest"
  by (induction bs) (simp_all add: li_def)

lemma occ_li_lis:
  "occurrences ''<li>'' (concat (map li bs) @ rest) = length bs + occurrences ''<li>'' rest"
  by (induction bs) (simp_all add: li_def)

lemma occ_section_lis:
  "occurrences ''<section'' (concat (map li bs) @ rest) = occurrences ''<section'' rest"
  by (induction bs) (simp_all add: li_def)

lemma occ_script_lis:
  "occurrences ''<script'' (concat (map li bs) @ rest) = occurrences ''<script'' rest"
  by (induction bs) (simp_all add: li_def)

lemma occ_ul_bulletsHtml:
  "occurrences ''<ul>'' (bulletsHtml f @ CHR 0x0A # rest) =
     (if truthy_bullets f = [] then 0 else 1) + occurrences ''<ul>'' rest"
  by (simp add: bulletsHtml_cases occ_ul_lis)

lemma occ_li_bulletsHtml:
  "occurrences ''<li>'' (bulletsHtml f @ CHR 0x0A # rest) =
     length (truthy_bullets f) + occurrences ''<li>'' rest"
  by (simp add: bulletsHtml_cases occ_li_lis)

lemma occ_section_bulletsHtml:
  "occurrences ''<section'' (bulletsHtml f @ CHR 0x0A # rest) = occurrences ''<section'' rest"
  by (simp add: bulletsHtml_cases occ_section_lis)

lemma occ_script_bulletsHtml:
  "occurrences ''<script'' (bulletsHtml f @ CHR 0x0A # rest) = occurrences ''<script'' rest"
  by (simp add: bulletsHtml_cases occ_script_lis)

lemma occ_ul_card:
  "occurrences ''<ul>'' (renderCard r @ rest) =
     (if truthy_bullets (rec_fields r) = [] then 0 else 1) + occurrences ''<ul>'' rest"
  by (simp add: renderCard_def Let_def nl_def highlightClass_def occ_ul_bulletsHtml)

lemma occ_li_card:
  "occurrences ''<li>'' (renderCard r @ rest) =
     length (truthy_bullets (rec_fields r)) + occurrences ''<li>'' rest"
  by (simp add: renderCard_def Let_def nl_def highlightClass_def occ_li_bulletsHtml)

lemma occ_section_card:
  "occurrences ''<section'' (renderCard r @ rest) = 1 + occurrences ''<section'' rest"
  by (simp add: renderCard_def Let_def nl_def highlightClass_def occ_section_bulletsHtml)

lemma occ_script_card:
  "occurrences ''<script'' (renderCard r @ rest) = occurrences ''<script'' rest"
  by (simp add: renderCard_def Let_def nl_def highlightClass_def occ_script_bulletsHtml)

lemma occ_section_join:
  "occurrences ''<section'' (join nl (map renderCard rs)) = length rs"
proof (induction rs rule: induct_list012)
  case 1
  show ?case by simp
next
  case (2 r)
  from occ_section_card [of r "[]"] show ?case by simp
next
  case (3 r r' rs)
  from 3 occ_section_card [of r "nl @ join nl (map renderCard (r' # rs))"]
  show ?case by (simp add: nl_def)
qed

text \<open>\<open>join\<close> puts the separator before every element but the first.\<close>

lemma join_Cons: "join sep (x # xs) = x @ concat (map (\<lambda>y. sep @ y) xs)"
  by (induction xs arbitrary: x) simp_all

lemma join_nl_cards:
  "join nl (map renderCard cards) =
     (case cards of
        [] \<Rightarrow> []
      | c # cs \<Rightarrow> renderCard c @ concat (map (\<lambda>r. CHR 0x0A # renderCard r) cs))"
  by (cases cards) (simp_all add: join_Cons nl_def comp_def)

section \<open>The sort\<close>

lemma order_or_0_eq: "order_or_0 = order_key"
  by (rule ext) (simp add: order_or_0_def order_key_def split: option.split)

text \<open>With a comparator that subtracts keys, the model is the library's stable sort by key.\<close>

lemma js_insort_key:
  "js_insort (\<lambda>a b. key a - key b) x ys = insort_key (key :: 'a \<Rightarrow> int) x ys"
  by (induction ys) simp_all

lemma js_sort_key:
  "js_sort (\<lambda>a b. key a - key b) xs = sort_key (key :: 'a \<Rightarrow> int) xs"
  by (induction xs) (simp_all add: js_insort_key)

lemma js_sort_compareOrder: "js_sort compareOrder xs = sort_key order_key xs"
proof -
  have cmp: "compareOrder = (\<lambda>a b. order_key a - order_key b)"
    by (intro ext) (simp add: compareOrder_def order_or_0_eq)
  show ?thesis unfolding cmp by (rule js_sort_key)
qed

lemma js_sort_unique:
  assumes "mset ys = mset xs"
    and "sorted (map order_key ys)"
    and "\<And>k. filter (\<lambda>r. order_key r = k) ys = filter (\<lambda>r. order_key r = k) xs"
  shows "js_sort compareOrder xs = ys"
  unfolding js_sort_compareOrder
proof (rule properties_for_sort_key)
  show "mset ys = mset xs" by fact
  show "sorted (map order_key ys)" by fact
  fix k assume "k \<in> set ys"
  from assms(3) [of "order_key k"]
  show "filter (\<lambda>x. order_key k = order_key x) ys = filter (\<lambda>x. order_key k = order_key x) xs"
    by (simp add: eq_commute)
qed

lemma sort_key_fixed: "sort_key f xs = xs \<longleftrightarrow> sorted (map f xs)"
  by (metis sorted_sort_key sort_key_id_if_sorted)

text \<open>
  The specification's example: records with Order 3, 1, 2 come out as 1, 2, 3.
\<close>

lemma renderCards_example_order:
  "snd (renderCards [card_titled ''c'' 3, card_titled ''a'' 1, card_titled ''b'' 2])
     = [card_titled ''a'' 1, card_titled ''b'' 2, card_titled ''c'' 3]
   \<and> fst (renderCards [card_titled ''c'' 3, card_titled ''a'' 1, card_titled ''b'' 2])
     = join nl [renderCard (card_titled ''a'' 1), renderCard (card_titled ''b'' 2),
                renderCard (card_titled ''c'' 3)]"
  by (simp add: renderCards_def compareOrder_def order_or_0_def card_titled_def blank_section_def)

section \<open>Claims about the escaper\<close>

text \<open>
  Claim C2. On a string, \<open>escapeHtml\<close> replaces every \<open>&\<close> by \<open>&amp;\<close>, every \<open><\<close> by \<open>&lt;\<close>,
  every \<open>>\<close> by \<open>&gt;\<close> and every double quote by \<open>&quot;\<close>, and keeps every other
  character: since \<open>&\<close> is replaced first, the four passes together act on each character
  of the input once, and the \<open>&\<close> of an entity is never escaped again. No \<open><\<close>, \<open>>\<close> or
  double quote is left in the result, whatever the argument. A \<open><script>\<close> inside a text
  comes out as \<open>&lt;script&gt;\<close>; a card shows the escaped title inside its \<open><h2>\<close>, and
  no card contains the text \<open><script\<close>.
\<close>

theorem escapeHtml_replaces_four_characters:
  \<open>escapeHtml (JStr s) = concat (map escape_char s)
   \<and> set (escapeHtml v) \<inter> {CHR ''<'', CHR ''>'', CHR 0x22} = {}
   \<and> escapeHtml (JStr (a @ ''<script>'' @ b))
       = escapeHtml (JStr a) @ ''&lt;script&gt;'' @ escapeHtml (JStr b)
   \<and> renderCard \<lparr>rec_fields = f\<lparr>Title := JStr t\<rparr>\<rparr>
       = nl @ ''    <section class="card'' @ highlightClass f @ ''">'' @ nl @
         ''      <h2>'' @ concat (map escape_char t) @ ''</h2>'' @ nl @
         ''      <p>'' @ escapeHtml (nullish (Body f) (JStr '''')) @ ''</p>'' @ nl @
         ''      '' @ bulletsHtml f @ nl @
         ''    </section>''
   \<and> occurrences ''<script'' (renderCard r) = 0\<close>
proof (intro conjI)
  show "escapeHtml (JStr s) = concat (map escape_char s)"
    by (simp add: escapeHtml_JStr escape_spec_def)
  show \<open>set (escapeHtml v) \<inter> {CHR ''<'', CHR ''>'', CHR 0x22} = {}\<close>
    unfolding escapeHtml_cases by (rule escape_spec_chars)
  show "escapeHtml (JStr (a @ ''<script>'' @ b))
       = escapeHtml (JStr a) @ ''&lt;script&gt;'' @ escapeHtml (JStr b)"
    by (simp add: escapeHtml_JStr escape_spec_append) (simp add: escape_spec_def escape_char_def)
  show \<open>renderCard \<lparr>rec_fields = f\<lparr>Title := JStr t\<rparr>\<rparr>
       = nl @ ''    <section class="card'' @ highlightClass f @ ''">'' @ nl @
         ''      <h2>'' @ concat (map escape_char t) @ ''</h2>'' @ nl @
         ''      <p>'' @ escapeHtml (nullish (Body f) (JStr '''')) @ ''</p>'' @ nl @
         ''      '' @ bulletsHtml f @ nl @
         ''    </section>''\<close>
    by (simp add: renderCard_def Let_def escapeHtml_JStr escape_spec_def highlightClass_def
        bulletsHtml_def bullets_def)
  from occ_script_card [of r "[]"] show "occurrences ''<script'' (renderCard r) = 0"
    by simp
qed

text \<open>
  Claim C4. The claim is that \<open>escapeHtml\<close> returns the empty string for \<open>null\<close> and for
  \<open>undefined\<close>. The default value of the parameter covers \<open>undefined\<close> only: for \<open>null\<close>
  the function returns the four letters \<open>null\<close>.
\<close>

theorem escapeHtml_null_is_text_null:
  "escapeHtml JNull = ''null'' \<and> escapeHtml JUndefined = ''''"
  by (simp add: escapeHtml_def)

text \<open>
  Claim C7. For a string \<open>x\<close> that contains \<open>&\<close>, \<open><\<close>, \<open>>\<close> or a double quote, escaping
  twice gives another result than escaping once: the first pass leaves an \<open>&\<close>, which the
  second pass lengthens.
\<close>

theorem escapeHtml_twice_differs:
  assumes \<open>CHR ''&'' \<in> set x \<or> CHR ''<'' \<in> set x \<or> CHR ''>'' \<in> set x \<or> CHR 0x22 \<in> set x\<close>
  shows "escapeHtml (JStr (escapeHtml (JStr x))) \<noteq> escapeHtml (JStr x)"
proof -
  from assms have "\<exists>c \<in> set x. special c"
    by (auto simp: special_def)
  then have "CHR ''&'' \<in> set (escape_spec x)"
    by (rule amp_in_escape_spec)
  then have "\<exists>c \<in> set (escape_spec x). special c"
    by (auto simp: special_def)
  then have "length (escape_spec x) < length (escape_spec (escape_spec x))"
    by (rule length_escape_spec_gt)
  then show ?thesis
    by (auto simp: escapeHtml_JStr)
qed

theorem escapeHtml_twice_differs_witness:
  \<open>CHR ''<'' \<in> set ''a<b''
   \<and> escapeHtml (JStr ''a<b'') = ''a&lt;b''
   \<and> escapeHtml (JStr (escapeHtml (JStr ''a<b''))) = ''a&amp;lt;b''
   \<and> escapeHtml (JStr (escapeHtml (JStr ''a<b''))) \<noteq> escapeHtml (JStr ''a<b'')\<close>
  using escapeHtml_twice_differs [of "''a<b''"] by (simp add: escapeHtml_def)

section \<open>Claims about the card renderer\<close>

text \<open>
  Claim C1. \<open>renderCards\<close> renders every input record once and drops none. The markup is
  the card of the first record of the sorted array, followed for each further record by
  one newline character and that record's card: between two cards stands a newline, and
  none before the first or after the last. The sorted array holds the same records as
  the input (as a multiset, so also as many), it is ascending in Order with a missing
  Order counted as 0, records with equal Order keep their input order, and the markup
  contains as many \<open><section\<close> openings as there are input records.
\<close>

theorem renderCards_sorted_stable:
  "(let cards = js_sort compareOrder sections in
      fst (renderCards sections) =
        (case cards of
           [] \<Rightarrow> []
         | c # cs \<Rightarrow> renderCard c @ concat (map (\<lambda>r. CHR 0x0A # renderCard r) cs))
    \<and> mset cards = mset sections
    \<and> length cards = length sections
    \<and> sorted (map order_key cards)
    \<and> (\<forall>k. filter (\<lambda>r. order_key r = k) cards = filter (\<lambda>r. order_key r = k) sections)
    \<and> occurrences ''<section'' (fst (renderCards sections)) = length sections)"
proof -
  have stable: "filter (\<lambda>r. order_key r = k) (sort_key order_key sections)
      = filter (\<lambda>r. order_key r = k) sections" for k
    by (rule sort_key_stable)
  have count: "occurrences ''<section'' (fst (renderCards sections)) = length sections"
    using occ_section_join [of "js_sort compareOrder sections"]
    by (simp add: renderCards_def Let_def js_sort_compareOrder)
  have out: "fst (renderCards sections) =
      (case sort_key order_key sections of
         [] \<Rightarrow> []
       | c # cs \<Rightarrow> renderCard c @ concat (map (\<lambda>r. CHR 0x0A # renderCard r) cs))"
    by (simp add: renderCards_def Let_def js_sort_compareOrder join_nl_cards)
  from stable count out show ?thesis
    by (simp add: Let_def js_sort_compareOrder)
qed

text \<open>Two records given out of order: the cards in order, one newline between them.\<close>

lemma renderCards_example_newline:
  "fst (renderCards [card_titled ''b'' 2, card_titled ''a'' 1])
     = renderCard (card_titled ''a'' 1) @ [CHR 0x0A] @ renderCard (card_titled ''b'' 2)"
  by (simp add: renderCards_def compareOrder_def order_or_0_def card_titled_def blank_section_def
      nl_def)

text \<open>
  Claim C3. The claim is that the class attribute is exactly \<open>card highlight\<close> for a
  record whose Highlight is truthy and \<open>card\<close> otherwise. The template already writes
  \<open>card\<close> and \<open>highlightClass\<close> adds \<open> card highlight\<close> to it, so a highlighted card gets
  the attribute \<open>card card highlight\<close>; a card without Highlight gets \<open>card\<close>.
\<close>

theorem highlight_class_repeats_card:
  \<open>renderCard \<lparr>rec_fields = blank_section\<lparr>Highlight := JBool True\<rparr>\<rparr>
     = nl @ ''    <section class="card card highlight">'' @ nl @
       ''      <h2></h2>'' @ nl @
       ''      <p></p>'' @ nl @
       ''      '' @ nl @
       ''    </section>''
   \<and> renderCard \<lparr>rec_fields = blank_section\<rparr>
     = nl @ ''    <section class="card">'' @ nl @
       ''      <h2></h2>'' @ nl @
       ''      <p></p>'' @ nl @
       ''      '' @ nl @
       ''    </section>''\<close>
  by (simp add: renderCard_def blank_section_def highlightClass_def bulletsHtml_def bullets_def
      escapeHtml_def nl_def)

text \<open>The same for every record: the opening tag of its card.\<close>

lemma card_class_attribute:
  \<open>\<exists>rest. renderCard r = nl @ ''    <section class="'' @
      (if truthy (Highlight (rec_fields r)) then ''card card highlight'' else ''card'')
      @ ''">'' @ rest\<close>
  by (simp add: renderCard_def Let_def highlightClass_def)

text \<open>Bullets that are texts or absent: the ones that pass the filter are the non-empty texts.\<close>

lemma text_bullets:
  "truthy_bullets (f\<lparr>Bullet_1 := text_field b1, Bullet_2 := text_field b2, Bullet_3 := text_field b3\<rparr>)
     = map JStr (filter (\<lambda>s. s \<noteq> []) (map text_or_empty [b1, b2, b3]))"
  by (cases b1; cases b2; cases b3) (simp_all add: truthy_bullets_def text_field_def text_or_empty_def)

text \<open>
  Claim C6. A card lists exactly the bullets that pass the filter, in slot order 1, 2, 3,
  each in its own \<open><li>\<close>; they stand in one \<open><ul>\<close> when there is at least one, and the
  card has no \<open><ul>\<close> when there is none. For bullets that are texts or absent, the ones
  that pass are the non-empty texts.
\<close>

theorem bullets_rendering:
  \<open>renderCard r
     = nl @ ''    <section class="card'' @ highlightClass (rec_fields r) @ ''">'' @ nl @
       ''      <h2>'' @ escapeHtml (nullish (Title (rec_fields r)) (JStr '''')) @ ''</h2>'' @ nl @
       ''      <p>'' @ escapeHtml (nullish (Body (rec_fields r)) (JStr '''')) @ ''</p>'' @ nl @
       ''      '' @
       (if truthy_bullets (rec_fields r) = [] then ''''
        else ''<ul>'' @ concat (map (\<lambda>b. ''<li>'' @ escapeHtml b @ ''</li>'')
                                  (truthy_bullets (rec_fields r))) @ ''</ul>'')
       @ nl @ ''    </section>''
   \<and> occurrences ''<li>'' (renderCard r) = length (truthy_bullets (rec_fields r))
   \<and> occurrences ''<ul>'' (renderCard r) = (if truthy_bullets (rec_fields r) = [] then 0 else 1)
   \<and> truthy_bullets (f\<lparr>Bullet_1 := text_field b1, Bullet_2 := text_field b2,
                        Bullet_3 := text_field b3\<rparr>)
       = map JStr (filter (\<lambda>s. s \<noteq> []) (map text_or_empty [b1, b2, b3]))\<close>
proof (intro conjI)
  have "li = (\<lambda>b. ''<li>'' @ escapeHtml b @ ''</li>'')"
    by (rule ext) (simp add: li_def)
  then show \<open>renderCard r
     = nl @ ''    <section class="card'' @ highlightClass (rec_fields r) @ ''">'' @ nl @
       ''      <h2>'' @ escapeHtml (nullish (Title (rec_fields r)) (JStr '''')) @ ''</h2>'' @ nl @
       ''      <p>'' @ escapeHtml (nullish (Body (rec_fields r)) (JStr '''')) @ ''</p>'' @ nl @
       ''      '' @
       (if truthy_bullets (rec_fields r) = [] then ''''
        else ''<ul>'' @ concat (map (\<lambda>b. ''<li>'' @ escapeHtml b @ ''</li>'')
                                  (truthy_bullets (rec_fields r))) @ ''</ul>'')
       @ nl @ ''    </section>''\<close>
    by (simp add: renderCard_def Let_def bulletsHtml_cases)
  from occ_li_card [of r "[]"]
  show "occurrences ''<li>'' (renderCard r) = length (truthy_bullets (rec_fields r))"
    by simp
  from occ_ul_card [of r "[]"]
  show "occurrences ''<ul>'' (renderCard r) = (if truthy_bullets (rec_fields r) = [] then 0 else 1)"
    by simp
  show "truthy_bullets (f\<lparr>Bullet_1 := text_field b1, Bullet_2 := text_field b2,
                        Bullet_3 := text_field b3\<rparr>)
       = map JStr (filter (\<lambda>s. s \<noteq> []) (map text_or_empty [b1, b2, b3]))"
    by (rule text_bullets)
qed

text \<open>The specification's example: bullets A, empty, B give two items, for A and B.\<close>

lemma bullets_example:
  \<open>renderCard \<lparr>rec_fields = blank_section\<lparr>Bullet_1 := JStr ''A'', Bullet_2 := JStr '''',
                                             Bullet_3 := JStr ''B''\<rparr>\<rparr>
     = nl @ ''    <section class="card">'' @ nl @
       ''      <h2></h2>'' @ nl @
       ''      <p></p>'' @ nl @
       ''      <ul><li>A</li><li>B</li></ul>'' @ nl @
       ''    </section>''\<close>
  by (simp add: renderCard_def blank_section_def highlightClass_def bulletsHtml_def bullets_def
      li_def escapeHtml_def nl_def)

text \<open>
  Claim C8. The claim is that \<open>renderCards\<close> leaves its input sequence as it was. It does
  not: \<open>sort\<close> reorders the caller's array. Two records given with Order 2 before Order 1
  stand in the other order after the call.
\<close>

theorem renderCards_reorders_input:
  "snd (renderCards [card_titled ''b'' 2, card_titled ''a'' 1])
     = [card_titled ''a'' 1, card_titled ''b'' 2]
   \<and> snd (renderCards [card_titled ''b'' 2, card_titled ''a'' 1])
     \<noteq> [card_titled ''b'' 2, card_titled ''a'' 1]"
  by (simp add: renderCards_def compareOrder_def order_or_0_def card_titled_def blank_section_def)

text \<open>
  Claim C8, amended. The only effect of \<open>renderCards\<close> on its input is the stable sort:
  after the call the array holds the same records, ascending in Order, records of equal
  Order in their former order; it is unchanged exactly when it was ascending already.
  The result depends on the input alone, and a second call on the array the first one
  left behind returns the same markup and leaves the array as it is.
\<close>

theorem renderCards_sorts_in_place:
  "mset (snd (renderCards sections)) = mset sections
   \<and> sorted (map order_key (snd (renderCards sections)))
   \<and> (\<forall>k. filter (\<lambda>r. order_key r = k) (snd (renderCards sections))
            = filter (\<lambda>r. order_key r = k) sections)
   \<and> (sorted (map order_key sections) \<longrightarrow> snd (renderCards sections) = sections)
   \<and> (snd (renderCards sections) = sections \<longrightarrow> sorted (map order_key sections))
   \<and> renderCards (snd (renderCards sections)) = renderCards sections"
proof -
  have s: "snd (renderCards sections) = sort_key order_key sections"
    by (simp add: renderCards_def Let_def js_sort_compareOrder)
  have again: "sort_key order_key (sort_key order_key sections) = sort_key order_key sections"
    by (rule sort_key_id_if_sorted) (rule sorted_sort_key)
  have idem: "renderCards (snd (renderCards sections)) = renderCards sections"
    unfolding s by (simp add: renderCards_def Let_def js_sort_compareOrder again)
  from idem show ?thesis
    unfolding s by (simp add: sort_key_stable sort_key_fixed)
qed

theorem renderCards_sorts_in_place_witness:
  "sorted (map order_key [card_titled ''a'' 1, card_titled ''b'' 2])
   \<and> snd (renderCards [card_titled ''a'' 1, card_titled ''b'' 2])
       = [card_titled ''a'' 1, card_titled ''b'' 2]
   \<and> renderCards (snd (renderCards [card_titled ''b'' 2, card_titled ''a'' 1]))
       = renderCards [card_titled ''b'' 2, card_titled ''a'' 1]"
  using renderCards_sorts_in_place [of "[card_titled ''a'' 1, card_titled ''b'' 2]"]
    renderCards_sorts_in_place [of "[card_titled ''b'' 2, card_titled ''a'' 1]"]
  by (simp add: order_key_def card_titled_def)

section \<open>Claims about fetching and assembling\<close>



lemma main_success:
  "ok globals_res \<Longrightarrow> ok sections_res \<Longrightarrow>
   main token base_id globals_res sections_res =
     ([ConsoleLog msg_fetching,
       Fetch (table_url base_id GLOBALS_TABLE ''?maxRecords=1'') (''Bearer '' @ token),
       Fetch (table_url base_id SECTIONS_TABLE '''') (''Bearer '' @ token),
       Mkdir ''public'',
       WriteFile ''public/index.html''
         (html (globals_of (records globals_res)) (fst (renderCards (records sections_res)))),
       ConsoleLog msg_generated],
      Inr ())"
  by (simp add: main_def fetchTable_def)


lemma url_globals:
  "table_url ''app1'' GLOBALS_TABLE ''?maxRecords=1''
     = ''https://api.airtable.com/v0/app1/Globals?maxRecords=1''"
  by (simp add: table_url_def GLOBALS_TABLE_def encodeURIComponent_def uri_unreserved_def)

lemma url_sections:
  "table_url ''app1'' SECTIONS_TABLE '''' = ''https://api.airtable.com/v0/app1/Sections''"
  by (simp add: table_url_def SECTIONS_TABLE_def encodeURIComponent_def uri_unreserved_def)

lemma js_or_text: "js_or (text_field t) (JStr []) = JStr (text_or_empty t)"
  by (cases t) (auto simp: js_or_def text_field_def text_or_empty_def)

lemma heroTitle_text:
  "heroTitle (g\<lparr>Hero_Title := text_field hero\<rparr>) = escape_spec (text_or_empty hero)"
  by (simp add: heroTitle_def js_or_text escapeHtml_JStr)

lemma no_fields_render:
  "heroTitle no_fields = '''' \<and> heroSubtitle no_fields = '''' \<and> footerText no_fields = ''''
   \<and> seoDescription no_fields = '''' \<and> seoTitle no_fields = ''Simple Web''"
  by (simp add: heroTitle_def heroSubtitle_def footerText_def seoDescription_def seoTitle_def
      no_fields_def js_or_def escapeHtml_def str_or_def)

text \<open>
  The title is the first of \<open>escapeHtml(globals["SEO Title"])\<close>, the hero title and
  \<open>Simple Web\<close> that is not empty, and it stands in the document's \<open><title>\<close> element,
  the first of the document. An SEO title that is the empty string falls back just as
  an absent one does. For settings that are texts or absent, the title is the one the
  specification words (\<open>title_spec\<close>).
\<close>

lemma seoTitle_first_nonempty:
  "seoTitle g =
     (if escapeHtml (SEO_Title g) \<noteq> [] then escapeHtml (SEO_Title g)
      else if heroTitle g \<noteq> [] then heroTitle g
      else ''Simple Web'')
   \<and> html g cardsHtml
       = html_before_title @ ''<title>'' @ seoTitle g @ ''</title>'' @ html_after_title g cardsHtml
   \<and> occurrences ''<title>'' html_before_title = 0
   \<and> seoTitle (g\<lparr>SEO_Title := JStr ''''\<rparr>)
       = (if heroTitle g \<noteq> [] then heroTitle g else ''Simple Web'')
   \<and> seoTitle (g\<lparr>SEO_Title := JUndefined\<rparr>)
       = (if heroTitle g \<noteq> [] then heroTitle g else ''Simple Web'')
   \<and> seoTitle (g\<lparr>SEO_Title := text_field seo, Hero_Title := text_field hero\<rparr>)
       = title_spec seo hero"
proof (intro conjI)
  show "seoTitle g =
     (if escapeHtml (SEO_Title g) \<noteq> [] then escapeHtml (SEO_Title g)
      else if heroTitle g \<noteq> [] then heroTitle g
      else ''Simple Web'')"
    by (simp add: seoTitle_def str_or_def)
  show "html g cardsHtml
       = html_before_title @ ''<title>'' @ seoTitle g @ ''</title>'' @ html_after_title g cardsHtml"
    by (simp add: html_def)
  show "occurrences ''<title>'' html_before_title = 0"
    by (simp add: html_before_title_def nl_def)
  show "seoTitle (g\<lparr>SEO_Title := JStr ''''\<rparr>)
       = (if heroTitle g \<noteq> [] then heroTitle g else ''Simple Web'')"
    by (simp add: seoTitle_def str_or_def heroTitle_def escapeHtml_def)
  show "seoTitle (g\<lparr>SEO_Title := JUndefined\<rparr>)
       = (if heroTitle g \<noteq> [] then heroTitle g else ''Simple Web'')"
    by (simp add: seoTitle_def str_or_def heroTitle_def escapeHtml_def)
  have seo: "escapeHtml (text_field seo) = escape_spec (text_or_empty seo)"
    by (cases seo) (simp_all add: text_field_def text_or_empty_def escapeHtml_cases)
  have hero: "heroTitle (g\<lparr>SEO_Title := text_field seo, Hero_Title := text_field hero\<rparr>)
      = escape_spec (text_or_empty hero)"
    using heroTitle_text [where g = "g\<lparr>SEO_Title := text_field seo\<rparr>" and hero = hero]
    by simp
  show "seoTitle (g\<lparr>SEO_Title := text_field seo, Hero_Title := text_field hero\<rparr>)
       = title_spec seo hero"
    unfolding seoTitle_def hero by (simp add: seo str_or_def title_spec_def)
qed

text \<open>A null hero title counts as absent: \<open>|| ""\<close> guards it.\<close>

lemma seoTitle_null_hero:
  "seoTitle (g\<lparr>SEO_Title := text_field seo, Hero_Title := JNull\<rparr>) = title_spec seo None"
proof -
  have seo: "escapeHtml (text_field seo) = escape_spec (text_or_empty seo)"
    by (cases seo) (simp_all add: text_field_def text_or_empty_def escapeHtml_cases)
  have hero: "heroTitle (g\<lparr>SEO_Title := text_field seo, Hero_Title := JNull\<rparr>) = []"
    by (simp add: heroTitle_def js_or_def escapeHtml_def)
  have none: "escape_spec (text_or_empty None) = []"
    by (simp add: text_or_empty_def escape_spec_def)
  show ?thesis
    unfolding seoTitle_def hero title_spec_def none by (simp add: seo str_or_def)
qed

text \<open>
  Claim C5. The claim is that for every settings value the title is the escaped SEO
  title if that is not empty, else the escaped hero title if that is not empty, else
  \<open>Simple Web\<close>. The SEO title is the one field that \<open>main\<close> hands to \<open>escapeHtml\<close>
  without \<open>|| ""\<close>, and \<open>escapeHtml\<close> turns \<open>null\<close> into the text \<open>null\<close>: with a null SEO
  title and the hero title \<open>Hi\<close> the document's title is \<open>null\<close>, not \<open>Hi\<close>. An absent
  or empty SEO title does fall back to \<open>Hi\<close>, and a null hero title falls through to
  \<open>Simple Web\<close>.
\<close>

theorem null_seo_title_is_text_null:
  "seoTitle null_seo_title = ''null''
   \<and> heroTitle null_seo_title = ''Hi''
   \<and> html null_seo_title cardsHtml
       = html_before_title @ ''<title>null</title>'' @ html_after_title null_seo_title cardsHtml
   \<and> seoTitle (no_fields\<lparr>Hero_Title := JStr ''Hi'', SEO_Title := JUndefined\<rparr>) = ''Hi''
   \<and> seoTitle (no_fields\<lparr>Hero_Title := JStr ''Hi'', SEO_Title := JStr ''''\<rparr>) = ''Hi''
   \<and> seoTitle (no_fields\<lparr>Hero_Title := JNull, SEO_Title := JStr ''''\<rparr>) = ''Simple Web''"
  by (simp add: null_seo_title_def no_fields_def seoTitle_def heroTitle_def html_def str_or_def
      js_or_def escapeHtml_def)



text \<open>
  Claim C10. When the Globals table returns no record, the run does not fail: the
  settings are the empty object, the hero title, hero subtitle, footer text and SEO
  description are empty, the title is \<open>Simple Web\<close>, and the page is written with
  these in place.
\<close>

theorem no_globals_record_degrades:
  \<open>(token \<noteq> [] \<and> base_id \<noteq> [] \<and> ok globals_res \<and> records globals_res = []
      \<and> ok sections_res \<longrightarrow>
      program (Some token) (Some base_id) globals_res sections_res =
        [ConsoleLog msg_fetching,
         Fetch (table_url base_id GLOBALS_TABLE ''?maxRecords=1'') (''Bearer '' @ token),
         Fetch (table_url base_id SECTIONS_TABLE '''') (''Bearer '' @ token),
         Mkdir ''public'',
         WriteFile ''public/index.html'' (html no_fields (fst (renderCards (records sections_res)))),
         ConsoleLog msg_generated])
   \<and> globals_of [] = no_fields
   \<and> heroTitle no_fields = '''' \<and> heroSubtitle no_fields = '''' \<and> footerText no_fields = ''''
   \<and> seoDescription no_fields = '''' \<and> seoTitle no_fields = ''Simple Web''
   \<and> html no_fields cardsHtml =
       ''<!DOCTYPE html>'' @ nl @
       ''<html lang="en">'' @ nl @
       ''<head>'' @ nl @
       ''  <meta charset="UTF-8" />'' @ nl @
       ''  <meta name="viewport" content="width=device-width, initial-scale=1.0" />'' @ nl @
       ''  <title>Simple Web</title>'' @ nl @
       ''  <meta name="description" content="">'' @ nl @
       ''  <link rel="stylesheet" href="styles.css" />'' @ nl @
       ''</head>'' @ nl @
       ''<body>'' @ nl @
       ''  <header class="site-header">'' @ nl @
       ''    <div class="container">'' @ nl @
       ''      <h1></h1>'' @ nl @
       ''      <p class="subtitle"></p>'' @ nl @
       ''    </div>'' @ nl @
       ''  </header>'' @ nl @
       nl @
       ''  <main class="container">'' @ nl @
       ''    '' @ cardsHtml @ nl @
       ''  </main>'' @ nl @
       nl @
       ''  <footer class="site-footer">'' @ nl @
       ''    <div class="container">'' @ nl @
       ''      <p></p>'' @ nl @
       ''    </div>'' @ nl @
       ''  </footer>'' @ nl @
       ''</body>'' @ nl @
       ''</html>''\<close>
proof (intro conjI)
  show "token \<noteq> [] \<and> base_id \<noteq> [] \<and> ok globals_res \<and> records globals_res = []
      \<and> ok sections_res \<longrightarrow>
      program (Some token) (Some base_id) globals_res sections_res =
        [ConsoleLog msg_fetching,
         Fetch (table_url base_id GLOBALS_TABLE ''?maxRecords=1'') (''Bearer '' @ token),
         Fetch (table_url base_id SECTIONS_TABLE '''') (''Bearer '' @ token),
         Mkdir ''public'',
         WriteFile ''public/index.html'' (html no_fields (fst (renderCards (records sections_res)))),
         ConsoleLog msg_generated]"
    by (simp add: program_def main_success globals_of_def)
  show "globals_of [] = no_fields"
    by (simp add: globals_of_def)
  show \<open>html no_fields cardsHtml =
       ''<!DOCTYPE html>'' @ nl @
       ''<html lang="en">'' @ nl @
       ''<head>'' @ nl @
       ''  <meta charset="UTF-8" />'' @ nl @
       ''  <meta name="viewport" content="width=device-width, initial-scale=1.0" />'' @ nl @
       ''  <title>Simple Web</title>'' @ nl @
       ''  <meta name="description" content="">'' @ nl @
       ''  <link rel="stylesheet" href="styles.css" />'' @ nl @
       ''</head>'' @ nl @
       ''<body>'' @ nl @
       ''  <header class="site-header">'' @ nl @
       ''    <div class="container">'' @ nl @
       ''      <h1></h1>'' @ nl @
       ''      <p class="subtitle"></p>'' @ nl @
       ''    </div>'' @ nl @
       ''  </header>'' @ nl @
       nl @
       ''  <main class="container">'' @ nl @
       ''    '' @ cardsHtml @ nl @
       ''  </main>'' @ nl @
       nl @
       ''  <footer class="site-footer">'' @ nl @
       ''    <div class="container">'' @ nl @
       ''      <p></p>'' @ nl @
       ''    </div>'' @ nl @
       ''  </footer>'' @ nl @
       ''</body>'' @ nl @
       ''</html>''\<close>
    by (simp add: html_def html_before_title_def html_after_title_def no_fields_render)
qed (simp_all add: no_fields_render)

theorem no_globals_record_degrades_witness:
  "''tok'' \<noteq> [] \<and> ''app1'' \<noteq> []
   \<and> ok (ok_with [card_titled ''A'' 1])
   \<and> ok (ok_with [] :: globals_fields response)
   \<and> records (ok_with [] :: globals_fields response) = []
   \<and> program (Some ''tok'') (Some ''app1'') (ok_with []) (ok_with [card_titled ''A'' 1]) =
        [ConsoleLog msg_fetching,
         Fetch ''https://api.airtable.com/v0/app1/Globals?maxRecords=1'' ''Bearer tok'',
         Fetch ''https://api.airtable.com/v0/app1/Sections'' ''Bearer tok'',
         Mkdir ''public'',
         WriteFile ''public/index.html'' (html no_fields (renderCard (card_titled ''A'' 1))),
         ConsoleLog msg_generated]"
  using no_globals_record_degrades [of "''tok''" "''app1''" "ok_with []"
      "ok_with [card_titled ''A'' 1]"]
  by (simp add: ok_with_def url_globals url_sections renderCards_def)

end
